theory Spec2Isabelle
  imports Complex_Main
begin

section \<open>The MFCC extraction notebook\<close>

text \<open>
  The program is the processing loop of the notebook \<^verbatim>\<open>mfcc-extraction.ipynb\<close>:
  \<^verbatim>\<open>
  for key, wav in reader:
      if wav.duration < opts.min_duration:
          continue
      assert(wav.samp_freq >= sf)
      assert(wav.samp_freq % sf == 0)
      s = wav.data()
      s = s[:,::int(wav.samp_freq / sf)]
      m = SubVector(mean(s, axis=0))
      f = mfcc.compute_features(m, sf, 1.0)
      f = SubMatrix(scale(f))
      writer[key] = f
  \<close>
  (the \<^verbatim>\<open>print\<close> calls between these lines are left out). Samples, durations and
  features are floating-point numbers in the program and real numbers here; sample
  rates are integer-valued and are integers here. A matrix is the list of its rows; the
  rows of \<^verbatim>\<open>wav.data()\<close> are the channels. \<^verbatim>\<open>SubVector\<close> and \<^verbatim>\<open>SubMatrix\<close> wrap an
  array without changing its values.
\<close>

subsection \<open>Data\<close>

type_synonym vector = "real list"
type_synonym matrix = "real list list"

record wave_data =
  samp_freq :: int
  duration :: real
  data :: matrix

text \<open>
  The exceptions of the loop: a failed \<^verbatim>\<open>assert\<close>, the modulo by zero, a slice
  with step zero. \<open>DegenerateInputError\<close> is the standardizer's error of the
  specification, raised only by the model of the standardizer further down.
\<close>

datatype error = AssertionError | ZeroDivisionError | ValueError | DegenerateInputError

subsection \<open>Downsampling: the slice \<^verbatim>\<open>s[:, ::k]\<close>\<close>

text \<open>
  A slice with a positive step keeps the first element and then every \<open>k\<close>-th one; with
  a negative step it does the same from the last element backwards; a zero step raises
  \<^verbatim>\<open>ValueError\<close>.
\<close>

fun every_nth :: "nat \<Rightarrow> 'a list \<Rightarrow> 'a list" where
  "every_nth k [] = []"
| "every_nth k (x # xs) = x # every_nth k (drop (k - 1) xs)"

definition slice_step :: "int \<Rightarrow> 'a list \<Rightarrow> 'a list" where
  "slice_step k xs =
     (if 0 < k then every_nth (nat k) xs else every_nth (nat (- k)) (rev xs))"

definition slice_cols :: "int \<Rightarrow> matrix \<Rightarrow> error + matrix" where
  "slice_cols k s = (if k = 0 then Inl ValueError else Inr (map (slice_step k) s))"

text \<open>\<^verbatim>\<open>int(a / b)\<close>: the quotient truncated towards zero (used where \<open>b \<noteq> 0\<close>).\<close>

definition int_truediv :: "int \<Rightarrow> int \<Rightarrow> int" where
  "int_truediv a b = sgn a * sgn b * (\<bar>a\<bar> div \<bar>b\<bar>)"

text \<open>
  The two assertions and the slice. Python's \<^verbatim>\<open>%\<close> takes the sign of the divisor, as
  \<open>mod\<close> on \<open>int\<close> does, and raises on a zero divisor.
\<close>

definition downsample :: "int \<Rightarrow> wave_data \<Rightarrow> error + matrix" where
  "downsample sf wav =
     (if \<not> (samp_freq wav \<ge> sf) then Inl AssertionError
      else if sf = 0 then Inl ZeroDivisionError
      else if \<not> (samp_freq wav mod sf = 0) then Inl AssertionError
      else slice_cols (int_truediv (samp_freq wav) sf) (data wav))"

subsection \<open>Mixing down: \<^verbatim>\<open>mean(s, axis=0)\<close>\<close>

text \<open>
  The mean over the rows, one value per column. An array is rectangular: every row has
  \<open>ncols s\<close> entries, and \<open>row ! j\<close> below is read in range. The matrix without rows has no
  columns.
\<close>

definition ncols :: "matrix \<Rightarrow> nat" where
  "ncols s = (case s of [] \<Rightarrow> 0 | row # _ \<Rightarrow> length row)"

definition mean_axis0 :: "matrix \<Rightarrow> vector" where
  "mean_axis0 s = map (\<lambda>j. (\<Sum>row\<leftarrow>s. row ! j) / real (length s)) [0..<ncols s]"

subsection \<open>One utterance and the loop\<close>

text \<open>
  \<^verbatim>\<open>mfcc.compute_features\<close> (Kaldi) and \<^verbatim>\<open>scale\<close> (scikit-learn) are library
  calls; the loop is modelled for any two such functions \<open>cf\<close> and \<open>sc\<close>, each of which
  may raise.
\<close>

type_synonym compute_features = "vector \<Rightarrow> int \<Rightarrow> real \<Rightarrow> error + matrix"
type_synonym scale = "matrix \<Rightarrow> error + matrix"

definition process_utt :: "compute_features \<Rightarrow> scale \<Rightarrow> int \<Rightarrow> wave_data \<Rightarrow> error + matrix" where
  "process_utt cf sc sf wav =
     (case downsample sf wav of
        Inl e \<Rightarrow> Inl e
      | Inr s \<Rightarrow>
          (let m = mean_axis0 s in
           case cf m sf 1 of
             Inl e \<Rightarrow> Inl e
           | Inr f \<Rightarrow> sc f))"

text \<open>What one pass of the loop body does with the pair it has read.\<close>

datatype outcome = Skipped | Raised error | Wrote matrix

definition loop_body :: "compute_features \<Rightarrow> scale \<Rightarrow> real \<Rightarrow> int \<Rightarrow> wave_data \<Rightarrow> outcome" where
  "loop_body cf sc min_duration sf wav =
     (if duration wav < min_duration then Skipped
      else case process_utt cf sc sf wav of
             Inl e \<Rightarrow> Raised e
           | Inr f \<Rightarrow> Wrote f)"

text \<open>
  The table writer appends one record per assignment \<^verbatim>\<open>writer[key] = f\<close>. An
  exception leaves the loop; the records written before it stay written.
\<close>

type_synonym writer = "(string \<times> matrix) list"

fun main_loop ::
  "compute_features \<Rightarrow> scale \<Rightarrow> real \<Rightarrow> int \<Rightarrow> (string \<times> wave_data) list \<Rightarrow> writer
     \<Rightarrow> writer \<times> error option" where
  "main_loop cf sc min_duration sf [] w = (w, None)"
| "main_loop cf sc min_duration sf ((key, wav) # reader) w =
     (case loop_body cf sc min_duration sf wav of
        Skipped \<Rightarrow> main_loop cf sc min_duration sf reader w
      | Raised e \<Rightarrow> (w, Some e)
      | Wrote f \<Rightarrow> main_loop cf sc min_duration sf reader (w @ [(key, f)]))"

section \<open>The library stages, as the specification describes them\<close>

text \<open>
  Modelled from the spec: \<^verbatim>\<open>mfcc.compute_features\<close> is Kaldi's and \<^verbatim>\<open>scale\<close> is
  scikit-learn's; neither is among the sources. The definitions of this section follow
  the FrameExtractor and the FeatureStandardizer of the specification, and only the
  statements about these two stages use them.
\<close>

subsection \<open>FrameExtractor\<close>

text \<open>
  Modelled from the spec: an AnalysisFrame, missing from the sources, is a sequence of
  samples of the frame length, tagged with its start offset in the signal.
\<close>

record analysis_frame =
  offset :: nat
  samples :: vector

text \<open>
  Modelled from the spec: the FrameExtractor, missing from the sources. Frames start at
  the multiples of the shift; a frame that would reach beyond the end of the signal is
  dropped, and nothing is padded; each frame is windowed. With a shift of zero the only
  multiple is the offset zero.
\<close>

function extract_frames ::
  "nat \<Rightarrow> nat \<Rightarrow> (vector \<Rightarrow> vector) \<Rightarrow> vector \<Rightarrow> nat \<Rightarrow> analysis_frame list" where
  "extract_frames frame_length frame_shift window sig off =
     (if length sig < off + frame_length then []
      else \<lparr>offset = off, samples = window (take frame_length (drop off sig))\<rparr> #
           (if frame_shift = 0 then []
            else extract_frames frame_length frame_shift window sig (off + frame_shift)))"
  by pat_completeness auto
termination
  by (relation "measure (\<lambda>(frame_length, frame_shift, window, sig, off). Suc (length sig) - off)")
    auto

declare extract_frames.simps [simp del]

text \<open>
  Modelled from the spec: the feature computation, missing from the sources. Each frame
  gives one feature vector (spectrum, Mel energies, cepstrum: the function
  \<open>feature_vector\<close>), and the vectors are the rows of the matrix, in frame order. No
  signal is an error.
\<close>

definition spec_compute_features ::
  "nat \<Rightarrow> nat \<Rightarrow> (vector \<Rightarrow> vector) \<Rightarrow> (vector \<Rightarrow> vector) \<Rightarrow> compute_features" where
  "spec_compute_features frame_length frame_shift window feature_vector =
     (\<lambda>m sf vtln_warp.
        Inr (map (\<lambda>fr. feature_vector (samples fr))
               (extract_frames frame_length frame_shift window m 0)))"

subsection \<open>FeatureStandardizer\<close>

text \<open>Modelled from the spec: column \<open>j\<close> of a feature matrix, across its rows.\<close>

definition column :: "matrix \<Rightarrow> nat \<Rightarrow> vector" where
  "column f j = map (\<lambda>row. row ! j) f"

text \<open>Modelled from the spec: the mean of a column.\<close>

definition col_mean :: "vector \<Rightarrow> real" where
  "col_mean xs = sum_list xs / real (length xs)"

text \<open>Modelled from the spec: the variance of a column, the mean squared deviation.\<close>

definition col_var :: "vector \<Rightarrow> real" where
  "col_var xs = col_mean (map (\<lambda>x. (x - col_mean xs)\<^sup>2) xs)"

text \<open>Modelled from the spec: the standard deviation of a column.\<close>

definition col_std :: "vector \<Rightarrow> real" where
  "col_std xs = sqrt (col_var xs)"

text \<open>
  Modelled from the spec: the rescaling of one column to zero mean and unit variance.
  The specification leaves the column of zero variance open; here it is centred and
  not scaled.
\<close>

definition standardize_column :: "vector \<Rightarrow> vector" where
  "standardize_column xs =
     (let mu = col_mean xs; sd = col_std xs
      in map (\<lambda>x. if sd = 0 then x - mu else (x - mu) / sd) xs)"

text \<open>
  Modelled from the spec: the FeatureStandardizer, missing from the sources. It fails
  with \<open>DegenerateInputError\<close> on a matrix of zero rows and standardizes every column
  otherwise.
\<close>

definition spec_scale :: scale where
  "spec_scale f =
     (if f = [] then Inl DegenerateInputError
      else Inr (map (\<lambda>i. map (\<lambda>j. standardize_column (column f j) ! i) [0..<ncols f])
                  [0..<length f]))"

section \<open>Properties of the slice\<close>

lemma every_nth_length:
  "0 < k \<Longrightarrow> length (every_nth k xs) = (length xs + k - 1) div k"
proof (induction k xs rule: every_nth.induct)
  case (1 k)
  then show ?case by simp
next
  case (2 k x xs)
  have "(length xs - (k - 1) + k - 1) div k = length xs div k"
  proof (cases "k - 1 \<le> length xs")
    case True
    with 2(2) show ?thesis by simp
  next
    case False
    with 2(2) show ?thesis by simp
  qed
  moreover have "(length (x # xs) + k - 1) div k = Suc (length xs div k)"
    using 2(2) by simp
  ultimately show ?case using 2 by simp
qed

lemma every_nth_nth:
  "0 < k \<Longrightarrow> i < length (every_nth k xs) \<Longrightarrow> every_nth k xs ! i = xs ! (i * k)"
proof (induction k xs arbitrary: i rule: every_nth.induct)
  case (1 k)
  then show ?case by simp
next
  case (2 k x xs)
  show ?case
  proof (cases i)
    case 0
    then show ?thesis by simp
  next
    case (Suc j)
    with 2(3) have j: "j < length (every_nth k (drop (k - 1) xs))" by simp
    then have "drop (k - 1) xs \<noteq> []" by (cases "drop (k - 1) xs") auto
    then have lt: "k - 1 < length xs" by simp
    have "every_nth k (drop (k - 1) xs) ! j = drop (k - 1) xs ! (j * k)"
      using 2(1)[OF 2(2) j] .
    also have "\<dots> = xs ! (k - 1 + j * k)"
      using lt by simp
    also have "\<dots> = (x # xs) ! (Suc j * k)"
      using 2(2) by (cases k) (simp_all add: ac_simps)
    finally show ?thesis using Suc by simp
  qed
qed

lemma every_nth_first: "xs \<noteq> [] \<Longrightarrow> every_nth k xs \<noteq> [] \<and> hd (every_nth k xs) = hd xs"
  by (cases xs) simp_all

lemma ceiling_as_div:
  assumes "0 < k"
  shows "\<lceil>real n / real k\<rceil> = int ((n + k - 1) div k)"
proof -
  define m where "m = (n + k - 1) div k"
  have up: "n \<le> m * k"
  proof -
    have "n + k - 1 < (m + 1) * k" unfolding m_def
      using assms by (metis Suc_eq_plus1 dividend_less_div_times mult.commute add.commute mult_Suc)
    then show ?thesis using assms by simp
  qed
  have lo: "m * k < n + k"
  proof -
    have "m * k \<le> n + k - 1" unfolding m_def by simp
    then show ?thesis using assms by linarith
  qed
  have "real n / real k \<le> real m"
    using up assms by (simp add: divide_le_eq flip: of_nat_mult)
  moreover have "real m - 1 < real n / real k"
  proof -
    have "real m * real k < real n + real k" using lo by (simp flip: of_nat_mult of_nat_add)
    then have "(real m - 1) * real k < real n" by (simp add: algebra_simps)
    then show ?thesis using assms by (simp add: less_divide_eq)
  qed
  ultimately have "\<lceil>real n / real k\<rceil> = int m"
    by (intro ceiling_unique) simp_all
  then show ?thesis by (simp add: m_def)
qed

lemma int_truediv_exact: "0 < sf \<Longrightarrow> int_truediv (k * sf) sf = k"
  by (simp add: int_truediv_def sgn_mult abs_mult) (cases "k = 0"; simp add: sgn_if abs_if)

lemma slice_step_pos: "0 < k \<Longrightarrow> slice_step k xs = every_nth (nat k) xs"
  by (simp add: slice_step_def)

lemma slice_step_length:
  assumes "1 \<le> k"
  shows "int (length (slice_step k xs)) = \<lceil>real (length xs) / real_of_int k\<rceil>"
proof -
  have k: "0 < nat k" "real_of_int k = real (nat k)" using assms by simp_all
  show ?thesis
    using assms by (simp add: slice_step_pos every_nth_length k ceiling_as_div del: of_nat_nat)
qed

lemma slice_step_nth:
  "1 \<le> k \<Longrightarrow> i < length (slice_step k xs) \<Longrightarrow> slice_step k xs ! i = xs ! (i * nat k)"
  by (simp add: slice_step_pos every_nth_nth)

lemma slice_step_first:
  "1 \<le> k \<Longrightarrow> xs \<noteq> [] \<Longrightarrow> slice_step k xs \<noteq> [] \<and> slice_step k xs ! 0 = xs ! 0"
  by (cases xs) (simp_all add: slice_step_pos)

section \<open>Downsampling and the rate assertions\<close>

lemma downsample_exact_ratio:
  assumes "0 < sf" "0 < k" "samp_freq wav = k * sf"
  shows "downsample sf wav = Inr (map (slice_step k) (data wav))"
proof -
  have "sf \<le> k * sf" using assms(1,2) by (simp add: mult_le_cancel_right1)
  moreover have "int_truediv (k * sf) sf = k" using assms(1) by (rule int_truediv_exact)
  ultimately show ?thesis
    using assms by (simp add: downsample_def slice_cols_def)
qed

text \<open>
  C10: for a channel of length \<open>n\<close> and a decimation ratio \<open>k \<ge> 1\<close>, the sample at index
  \<open>i\<close> of the downsampled channel is the input sample at index \<open>i * k\<close>; the first
  sample of a channel that has one is kept; the output has \<open>\<lceil>n / k\<rceil>\<close> samples.
\<close>

theorem downsample_keeps_every_kth:
  assumes "0 < sf" and "1 \<le> k" and "samp_freq wav = k * sf" and "c < length (data wav)"
  shows "\<exists>s'. downsample sf wav = Inr s' \<and> length s' = length (data wav) \<and>
           int (length (s' ! c)) = \<lceil>real (length (data wav ! c)) / real_of_int k\<rceil> \<and>
           (\<forall>i < length (s' ! c). s' ! c ! i = data wav ! c ! (i * nat k)) \<and>
           (data wav ! c \<noteq> [] \<longrightarrow> s' ! c \<noteq> [] \<and> s' ! c ! 0 = data wav ! c ! 0)"
proof -
  have "0 < k" using assms(2) by simp
  then have "downsample sf wav = Inr (map (slice_step k) (data wav))"
    using assms(1,3) by (simp add: downsample_exact_ratio)
  moreover have "map (slice_step k) (data wav) ! c = slice_step k (data wav ! c)"
    using assms(4) by simp
  ultimately show ?thesis
    using slice_step_length[OF assms(2), of "data wav ! c"]
      slice_step_nth[OF assms(2), of _ "data wav ! c"]
      slice_step_first[OF assms(2), of "data wav ! c"]
    by simp
qed

theorem downsample_keeps_every_kth_witness:
  "\<exists>s'. downsample 8000 \<lparr>samp_freq = 16000, duration = 1, data = [[10, 20, 30], [40, 50, 60]]\<rparr>
          = Inr s' \<and>
     int (length (s' ! 1)) = \<lceil>3 / 2 :: real\<rceil> \<and>
     (\<forall>i < length (s' ! 1). s' ! 1 ! i = [40, 50, 60] ! (i * 2)) \<and> s' ! 1 ! 0 = 40"
  using downsample_keeps_every_kth[of 8000 2
      "\<lparr>samp_freq = 16000, duration = 1, data = [[10, 20, 30], [40, 50, 60]]\<rparr>" 1]
  by auto

text \<open>
  C1, as the program has it: for a buffer whose channels all have \<open>n\<close> samples and whose
  sample rate is \<open>k * sf\<close> with \<open>k\<close> and \<open>sf\<close> positive, downsampling succeeds, keeps every
  channel, and each channel has \<open>\<lceil>n / k\<rceil>\<close> samples afterwards; that is \<open>\<lfloor>n / k\<rfloor>\<close> when
  \<open>k\<close> divides \<open>n\<close>.
\<close>

theorem downsample_length_ceiling:
  assumes "0 < sf" "0 < k" "samp_freq wav = k * sf"
    and "\<forall>ch \<in> set (data wav). length ch = n"
  shows "\<exists>s. downsample sf wav = Inr s \<and> length s = length (data wav) \<and>
           (\<forall>ch \<in> set s. int (length ch) = \<lceil>real n / real_of_int k\<rceil>) \<and>
           (nat k dvd n \<longrightarrow> (\<forall>ch \<in> set s. length ch = n div nat k))"
proof -
  have k1: "1 \<le> k" using assms(2) by simp
  have eq: "downsample sf wav = Inr (map (slice_step k) (data wav))"
    using assms(1-3) by (rule downsample_exact_ratio)
  have len: "int (length (slice_step k ch)) = \<lceil>real n / real_of_int k\<rceil>"
    if "ch \<in> set (data wav)" for ch
    using slice_step_length[OF k1, of ch] assms(4) that by simp
  have fl: "length (slice_step k ch) = n div nat k"
    if mem: "ch \<in> set (data wav)" and dv: "nat k dvd n" for ch
  proof -
    obtain q where q: "n = nat k * q" using dv by (auto simp: dvd_def)
    have "length (slice_step k ch) = (n + nat k - 1) div nat k"
      using assms(2,4) mem by (simp add: slice_step_pos every_nth_length)
    also have "\<dots> = (nat k - 1 + q * nat k) div nat k"
      using assms(2) q by (simp add: ac_simps)
    also have "\<dots> = q" using assms(2) by (simp only: div_mult_self1) simp
    finally show ?thesis using q assms(2) by simp
  qed
  show ?thesis using eq len fl by auto
qed

theorem downsample_length_ceiling_witness:
  "\<exists>s. downsample 8000 \<lparr>samp_freq = 16000, duration = 3 / 16000, data = [[1, 2, 3], [4, 5, 6]]\<rparr> = Inr s
      \<and> length s = length [[1, 2, 3], [4, 5, 6 :: real]]
      \<and> (\<forall>ch \<in> set s. int (length ch) = \<lceil>3 / 2 :: real\<rceil>)"
  using downsample_length_ceiling[of 8000 2
      "\<lparr>samp_freq = 16000, duration = 3 / 16000, data = [[1, 2, 3], [4, 5, 6]]\<rparr>" 3]
  by simp

text \<open>
  The length is not \<open>\<lfloor>n / k\<rfloor>\<close> in general: three samples at twice the target rate give
  two samples, the first and the third.
\<close>

theorem downsample_length_floor_counterexample:
  "downsample 8000 \<lparr>samp_freq = 2 * 8000, duration = 3 / 16000, data = [[1, 2, 3]]\<rparr> = Inr [[1, 3]]
   \<and> length [1, 3 :: real] \<noteq> length [1, 2, 3 :: real] div 2"
proof -
  have "every_nth 2 [1, 2, 3 :: real] = [1, 3]"
    by (simp add: eval_nat_numeral)
  then show ?thesis
    by (simp add: downsample_def slice_cols_def slice_step_def int_truediv_def)
qed

text \<open>
  C2: the step requires \<open>samp_freq \<ge> sf\<close> and \<open>samp_freq % sf = 0\<close>. Whenever one of the
  two fails, the step fails with the error of the assertions, \<open>AssertionError\<close> (the
  specification's UnsupportedRateError), and with no other; when both hold for a
  positive target rate, the step returns a matrix. The target rate is not zero: at
  zero the modulo itself raises.
\<close>

theorem rate_guard:
  assumes "sf \<noteq> 0"
  shows "(\<not> (samp_freq wav \<ge> sf \<and> samp_freq wav mod sf = 0)
            \<longrightarrow> downsample sf wav = Inl AssertionError) \<and>
         (0 < sf \<and> samp_freq wav \<ge> sf \<and> samp_freq wav mod sf = 0
            \<longrightarrow> (\<exists>s. downsample sf wav = Inr s))"
proof -
  have "\<exists>s. downsample sf wav = Inr s"
    if "0 < sf" "samp_freq wav \<ge> sf" "samp_freq wav mod sf = 0"
  proof -
    from that(3) have "sf dvd samp_freq wav" by (simp add: mod_eq_0_iff_dvd)
    then obtain k where k: "samp_freq wav = k * sf" by (auto simp: dvd_def mult.commute)
    have "0 < k * sf" using that(1,2) k by simp
    then have "0 < k" using that(1) by (simp add: zero_less_mult_iff)
    then show ?thesis using downsample_exact_ratio[OF that(1) _ k] by blast
  qed
  then show ?thesis using assms by (auto simp: downsample_def)
qed

theorem rate_guard_witness:
  "downsample 8000 \<lparr>samp_freq = 4000, duration = 1, data = [[1, 2]]\<rparr> = Inl AssertionError \<and>
   downsample 8000 \<lparr>samp_freq = 12000, duration = 1, data = [[1, 2]]\<rparr> = Inl AssertionError \<and>
   (\<exists>s. downsample 8000 \<lparr>samp_freq = 16000, duration = 1, data = [[1, 2]]\<rparr> = Inr s)"
  using rate_guard[of 8000 "\<lparr>samp_freq = 4000, duration = 1, data = [[1, 2]]\<rparr>"]
    rate_guard[of 8000 "\<lparr>samp_freq = 12000, duration = 1, data = [[1, 2]]\<rparr>"]
    rate_guard[of 8000 "\<lparr>samp_freq = 16000, duration = 1, data = [[1, 2]]\<rparr>"]
  by simp

section \<open>Mixing down\<close>

text \<open>
  C5: the mean over the channels of a buffer with exactly one channel is that channel,
  sample for sample.
\<close>

theorem downmix_single_channel:
  assumes "length s = 1"
  shows "mean_axis0 s = s ! 0"
proof -
  from assms obtain ch where "s = [ch]" by (cases s) auto
  then show ?thesis by (simp add: mean_axis0_def ncols_def map_nth)
qed

theorem downmix_single_channel_witness:
  "mean_axis0 [[3, -1, 7 / 2]] = [3, -1, 7 / 2]"
  using downmix_single_channel[of "[[3, -1, 7 / 2]]"] by simp

section \<open>The loop\<close>

lemma main_loop_filter:
  "main_loop cf sc min_duration sf reader w =
     main_loop cf sc min_duration sf
       (filter (\<lambda>(key, wav). \<not> duration wav < min_duration) reader) w"
proof (induction reader arbitrary: w)
  case Nil
  then show ?case by simp
next
  case (Cons p reader)
  obtain key wav where p: "p = (key, wav)" by (cases p)
  show ?case
  proof (cases "duration wav < min_duration")
    case True
    then show ?thesis using Cons.IH[of w] p by (simp add: loop_body_def)
  next
    case False
    then show ?thesis
      using Cons.IH p by (simp add: loop_body_def split: sum.split)
  qed
qed

text \<open>
  C4: a pair that the loop reads is skipped exactly when its duration is below
  \<open>min_duration\<close>; any other pair goes through \<open>process_utt\<close>. The test precedes the
  assertions and every stage, so the pairs below the threshold have no effect on the
  run, whatever their sample rates: the loop does what it does on the reader without
  them.
\<close>

theorem duration_filter:
  "(loop_body cf sc min_duration sf wav = Skipped \<longleftrightarrow> duration wav < min_duration) \<and>
   (\<not> duration wav < min_duration \<longrightarrow>
      loop_body cf sc min_duration sf wav
        = (case process_utt cf sc sf wav of Inl e \<Rightarrow> Raised e | Inr f \<Rightarrow> Wrote f)) \<and>
   main_loop cf sc min_duration sf reader w
     = main_loop cf sc min_duration sf
         (filter (\<lambda>(key, wav). \<not> duration wav < min_duration) reader) w"
proof -
  have "loop_body cf sc min_duration sf wav = Skipped \<longleftrightarrow> duration wav < min_duration"
    by (simp add: loop_body_def split: sum.split)
  moreover have "\<not> duration wav < min_duration \<longrightarrow>
      loop_body cf sc min_duration sf wav
        = (case process_utt cf sc sf wav of Inl e \<Rightarrow> Raised e | Inr f \<Rightarrow> Wrote f)"
    by (simp add: loop_body_def)
  ultimately show ?thesis
    using main_loop_filter[of cf sc min_duration sf reader w] by simp
qed

theorem duration_filter_witness:
  "loop_body (\<lambda>m sf v. Inr [m]) Inr 2 8000 \<lparr>samp_freq = 4000, duration = 1, data = [[1, 2]]\<rparr>
     = Skipped \<and>
   loop_body (\<lambda>m sf v. Inr [m]) Inr 2 8000 \<lparr>samp_freq = 16000, duration = 2, data = [[1, 2]]\<rparr>
     = Wrote [[1]] \<and>
   loop_body (\<lambda>m sf v. Inr [m]) Inr 2 8000 \<lparr>samp_freq = 4000, duration = 2, data = [[1, 2]]\<rparr>
     = Raised AssertionError \<and>
   main_loop (\<lambda>m sf v. Inr [m]) Inr 2 8000
     [(''a'', \<lparr>samp_freq = 4000, duration = 1, data = [[1, 2]]\<rparr>),
      (''b'', \<lparr>samp_freq = 16000, duration = 2, data = [[1, 2]]\<rparr>)] []
   = main_loop (\<lambda>m sf v. Inr [m]) Inr 2 8000
       [(''b'', \<lparr>samp_freq = 16000, duration = 2, data = [[1, 2]]\<rparr>)] []"
proof -
  have "process_utt (\<lambda>m sf v. Inr [m]) Inr 8000 \<lparr>samp_freq = 16000, duration = 2, data = [[1, 2]]\<rparr>
          = Inr [[1]]"
    by (simp add: process_utt_def downsample_def slice_cols_def slice_step_def int_truediv_def
        mean_axis0_def ncols_def eval_nat_numeral)
  moreover have "process_utt (\<lambda>m sf v. Inr [m]) Inr 8000 \<lparr>samp_freq = 4000, duration = 2, data = [[1, 2]]\<rparr>
          = Inl AssertionError"
    by (simp add: process_utt_def downsample_def)
  ultimately show ?thesis
    using duration_filter[of "\<lambda>m sf v. Inr [m]" Inr 2 8000
        "\<lparr>samp_freq = 4000, duration = 1, data = [[1, 2]]\<rparr>" "[]" "[]"]
      duration_filter[of "\<lambda>m sf v. Inr [m]" Inr 2 8000
        "\<lparr>samp_freq = 16000, duration = 2, data = [[1, 2]]\<rparr>" "[]" "[]"]
      duration_filter[of "\<lambda>m sf v. Inr [m]" Inr 2 8000
        "\<lparr>samp_freq = 4000, duration = 2, data = [[1, 2]]\<rparr>"
        "[(''a'', \<lparr>samp_freq = 4000, duration = 1, data = [[1, 2]]\<rparr>),
          (''b'', \<lparr>samp_freq = 16000, duration = 2, data = [[1, 2]]\<rparr>)]" "[]"]
    by simp
qed

text \<open>
  C9: the loop reads the pairs up to the first one that raises. The records it adds to
  the writer are, in the order of the source, one for each pair read that is not
  skipped and whose processing succeeds: the pair's own key with the resulting matrix.
\<close>

theorem sink_records:
  "fst (main_loop cf sc min_duration sf reader w) =
     w @ map (\<lambda>(key, wav). (key, projr (process_utt cf sc sf wav)))
           (filter (\<lambda>(key, wav). \<not> duration wav < min_duration \<and> \<not> isl (process_utt cf sc sf wav))
              (takeWhile (\<lambda>(key, wav). duration wav < min_duration \<or> \<not> isl (process_utt cf sc sf wav))
                 reader))"
proof (induction reader arbitrary: w)
  case Nil
  then show ?case by simp
next
  case (Cons p reader)
  obtain key wav where p: "p = (key, wav)" by (cases p)
  show ?case
  proof (cases "duration wav < min_duration")
    case True
    then show ?thesis using Cons.IH[of w] p by (simp add: loop_body_def)
  next
    case False
    show ?thesis
    proof (cases "process_utt cf sc sf wav")
      case (Inl e)
      then show ?thesis using False p by (simp add: loop_body_def)
    next
      case (Inr f)
      then show ?thesis using False Cons.IH[of "w @ [(key, f)]"] p by (simp add: loop_body_def)
    qed
  qed
qed

theorem sink_records_witness:
  "fst (main_loop (\<lambda>m sf v. Inr [m]) Inr 2 8000
         [(''a'', \<lparr>samp_freq = 16000, duration = 1, data = [[7, 8]]\<rparr>),
          (''b'', \<lparr>samp_freq = 16000, duration = 2, data = [[1, 2]]\<rparr>),
          (''c'', \<lparr>samp_freq = 8000, duration = 3, data = [[3, 4], [5, 6]]\<rparr>),
          (''d'', \<lparr>samp_freq = 4000, duration = 2, data = [[9]]\<rparr>),
          (''e'', \<lparr>samp_freq = 8000, duration = 2, data = [[9]]\<rparr>)] [])
     = [(''b'', [[1]]), (''c'', [[4, 5]])]"
proof -
  have b: "process_utt (\<lambda>m sf v. Inr [m]) Inr 8000 \<lparr>samp_freq = 16000, duration = 2, data = [[1, 2]]\<rparr>
          = Inr [[1]]"
    by (simp add: process_utt_def downsample_def slice_cols_def slice_step_def int_truediv_def
        mean_axis0_def ncols_def eval_nat_numeral)
  have c: "process_utt (\<lambda>m sf v. Inr [m]) Inr 8000
             \<lparr>samp_freq = 8000, duration = 3, data = [[3, 4], [5, 6]]\<rparr> = Inr [[4, 5]]"
    by (simp add: process_utt_def downsample_def slice_cols_def slice_step_def int_truediv_def
        mean_axis0_def ncols_def eval_nat_numeral)
  have d: "process_utt (\<lambda>m sf v. Inr [m]) Inr 8000 \<lparr>samp_freq = 4000, duration = 2, data = [[9]]\<rparr>
          = Inl AssertionError"
    by (simp add: process_utt_def downsample_def)
  show ?thesis
    using sink_records[of "\<lambda>m sf v. Inr [m]" Inr 2 8000
        "[(''a'', \<lparr>samp_freq = 16000, duration = 1, data = [[7, 8]]\<rparr>),
          (''b'', \<lparr>samp_freq = 16000, duration = 2, data = [[1, 2]]\<rparr>),
          (''c'', \<lparr>samp_freq = 8000, duration = 3, data = [[3, 4], [5, 6]]\<rparr>),
          (''d'', \<lparr>samp_freq = 4000, duration = 2, data = [[9]]\<rparr>),
          (''e'', \<lparr>samp_freq = 8000, duration = 2, data = [[9]]\<rparr>)]" "[]"]
    by (simp add: b c d)
qed

section \<open>The stages of the specification\<close>

lemma one_frame:
  "length sig = frame_length \<Longrightarrow>
     length (extract_frames frame_length frame_shift window sig 0) = 1"
  by (subst extract_frames.simps, subst extract_frames.simps) simp

lemma no_frame:
  "length sig < frame_length \<Longrightarrow>
     extract_frames frame_length frame_shift window sig 0 = []"
  by (subst extract_frames.simps) simp

text \<open>
  For a positive shift the model gives the frame count of the specification's
  scenarios, \<open>\<lfloor>(n - frame_length) / frame_shift\<rfloor> + 1\<close> for a signal of \<open>n \<ge> frame_length\<close>
  samples.
\<close>

lemma extract_frames_count:
  assumes "0 < frame_shift"
  shows "length (extract_frames frame_length frame_shift window sig off) =
           (if length sig < off + frame_length then 0
            else (length sig - (off + frame_length)) div frame_shift + 1)"
  using assms
proof (induction frame_length frame_shift window sig off rule: extract_frames.induct)
  case (1 frame_length frame_shift window sig off)
  show ?case
  proof (cases "length sig < off + frame_length")
    case True
    then show ?thesis by (subst extract_frames.simps) simp
  next
    case False
    have fs: "frame_shift \<noteq> 0" using 1(2) by simp
    note IH = 1(1)[OF False fs 1(2)]
    have unf: "length (extract_frames frame_length frame_shift window sig off)
                 = Suc (length (extract_frames frame_length frame_shift window sig (off + frame_shift)))"
      using False fs by (subst extract_frames.simps) simp
    show ?thesis
    proof (cases "length sig < off + frame_shift + frame_length")
      case True
      with False have "(length sig - (off + frame_length)) div frame_shift = 0"
        by simp
      with True False show ?thesis
        unfolding unf IH by simp
    next
      case F2: False
      define a where "a = length sig - (off + frame_shift + frame_length)"
      have e: "length sig - (off + frame_length) = a + frame_shift"
        using F2 by (simp add: a_def)
      have "(a + frame_shift) div frame_shift = a div frame_shift + 1"
        using fs by simp
      then have "(length sig - (off + frame_length)) div frame_shift
              = (length sig - (off + frame_shift + frame_length)) div frame_shift + 1"
        unfolding e unfolding a_def .
      with F2 False show ?thesis
        unfolding unf IH by simp
    qed
  qed
qed

lemma sum_list_shift_scale:
  "sum_list (map (\<lambda>x. (x - c) / d) xs) = (sum_list xs - real (length xs) * c) / (d::real)"
  by (induction xs) (simp_all add: algebra_simps add_divide_distrib diff_divide_distrib)

lemma sum_list_sq_scale:
  "sum_list (map (\<lambda>x. ((x - c) / d)\<^sup>2) xs) = sum_list (map (\<lambda>x. (x - c)\<^sup>2) xs) / (d::real)\<^sup>2"
  by (induction xs) (simp_all add: power_divide add_divide_distrib)

lemma col_var_nonneg: "0 \<le> col_var xs"
proof -
  have "0 \<le> sum_list (map (\<lambda>x. (x - c)\<^sup>2) xs)" for c :: real
    by (induction xs) simp_all
  then show ?thesis by (simp add: col_var_def col_mean_def)
qed

lemma standardize_column_mean:
  assumes "xs \<noteq> []" "col_var xs \<noteq> 0"
  shows "col_mean (standardize_column xs) = 0"
proof -
  have sd: "col_std xs \<noteq> 0" using assms(2) by (simp add: col_std_def)
  have "real (length xs) * col_mean xs = sum_list xs"
    using assms(1) by (simp add: col_mean_def)
  then have "sum_list (map (\<lambda>x. (x - col_mean xs) / col_std xs) xs) = 0"
    by (simp add: sum_list_shift_scale)
  then show ?thesis using sd by (simp add: standardize_column_def Let_def col_mean_def)
qed

lemma standardize_column_std:
  assumes "xs \<noteq> []" "col_var xs \<noteq> 0"
  shows "col_std (standardize_column xs) = 1"
proof -
  have sd: "col_std xs \<noteq> 0" using assms(2) by (simp add: col_std_def)
  have sq: "(col_std xs)\<^sup>2 = col_var xs"
    by (simp add: col_std_def col_var_nonneg)
  have ys: "standardize_column xs = map (\<lambda>x. (x - col_mean xs) / col_std xs) xs"
    using sd by (simp add: standardize_column_def Let_def)
  have "col_var (standardize_column xs)
          = col_mean (map (\<lambda>x. ((x - col_mean xs) / col_std xs)\<^sup>2) xs)"
    using standardize_column_mean[OF assms] by (simp add: col_var_def) (simp add: ys comp_def)
  also have "\<dots> = col_var xs / (col_std xs)\<^sup>2"
    by (simp add: col_mean_def col_var_def sum_list_sq_scale)
  also have "\<dots> = 1" using assms(2) by (simp add: sq)
  finally show ?thesis by (simp add: col_std_def)
qed

lemma column_spec_scale:
  assumes "j < ncols f"
  shows "column (map (\<lambda>i. map (\<lambda>j. standardize_column (column f j) ! i) [0..<ncols f])
                  [0..<length f]) j = standardize_column (column f j)"
proof -
  have len: "length (standardize_column (column f j)) = length f"
    by (simp add: standardize_column_def Let_def column_def)
  have "column (map (\<lambda>i. map (\<lambda>j. standardize_column (column f j) ! i) [0..<ncols f])
                  [0..<length f]) j
        = map (\<lambda>i. standardize_column (column f j) ! i) [0..<length f]"
    using assms by (simp add: column_def comp_def)
  also have "\<dots> = standardize_column (column f j)"
    using map_nth[of "standardize_column (column f j)"] by (simp add: len)
  finally show ?thesis .
qed

text \<open>
  C8: a signal of exactly \<open>frame_length\<close> samples gives exactly one frame; a shorter
  signal gives no frame, and the feature computation then returns the matrix without
  rows, not an error.
\<close>

theorem frame_count_at_frame_length:
  "(length m = frame_length \<longrightarrow>
      length (extract_frames frame_length frame_shift window m 0) = 1) \<and>
   (length m < frame_length \<longrightarrow>
      extract_frames frame_length frame_shift window m 0 = [] \<and>
      spec_compute_features frame_length frame_shift window feature_vector m sf vtln_warp = Inr [])"
  by (simp add: one_frame no_frame spec_compute_features_def)

theorem frame_count_at_frame_length_witness:
  "length (extract_frames 3 1 id [1, 2, 3] 0) = 1 \<and>
   extract_frames 3 1 id [1, 2] 0 = [] \<and>
   spec_compute_features 3 1 id id [1, 2] 8000 1 = Inr []"
  using frame_count_at_frame_length[of "[1, 2, 3]" 3 1 id id 8000 1]
    frame_count_at_frame_length[of "[1, 2]" 3 1 id id 8000 1]
  by simp

text \<open>
  C7: for a feature matrix with at least one row, the standardizer returns a matrix in
  which every column of nonzero input variance has mean 0 and standard deviation 1
  across the rows (exactly, in real arithmetic).
\<close>

theorem standardizer_zero_mean_unit_std:
  assumes "f \<noteq> []" and "\<forall>row \<in> set f. length row = ncols f"
    and "j < ncols f" and "col_var (column f j) \<noteq> 0"
  shows "\<exists>g. spec_scale f = Inr g \<and> col_mean (column g j) = 0 \<and> col_std (column g j) = 1"
proof -
  have ne: "column f j \<noteq> []" using assms(1) by (simp add: column_def)
  show ?thesis
    using assms(1) column_spec_scale[OF assms(3)] standardize_column_mean[OF ne assms(4)]
      standardize_column_std[OF ne assms(4)]
    by (simp add: spec_scale_def)
qed

theorem standardizer_zero_mean_unit_std_witness:
  "\<exists>g. spec_scale [[1, 5], [3, 5]] = Inr g \<and> col_mean (column g 0) = 0 \<and> col_std (column g 0) = 1"
proof -
  have v: "col_var (column [[1, 5], [3, 5]] 0) = 1"
    by (simp add: col_var_def col_mean_def column_def)
  show ?thesis
    using standardizer_zero_mean_unit_std[of "[[1, 5], [3, 5]]" 0]
    by (simp add: v ncols_def)
qed

lemma mean_axis0_no_samples:
  assumes "\<forall>ch \<in> set s. ch = []"
  shows "mean_axis0 s = []"
proof (cases s)
  case Nil
  then show ?thesis by (simp add: mean_axis0_def ncols_def)
next
  case (Cons ch rest)
  with assms have "ch = []" by simp
  with Cons show ?thesis by (simp add: mean_axis0_def ncols_def)
qed

text \<open>
  C3: the standardizer fails with \<open>DegenerateInputError\<close> on the matrix without rows.
  A buffer without samples, at a rate the assertions accept, goes through downsampling
  and mixing to the empty signal, which has no frame of positive length; the
  standardizer receives the matrix without rows and the utterance fails with that error.
\<close>

theorem empty_buffer_degenerate:
  assumes "0 < frame_length" and "0 < sf" and "0 < k" and "samp_freq wav = k * sf"
    and "\<forall>ch \<in> set (data wav). ch = []"
  shows "spec_scale [] = Inl DegenerateInputError \<and>
         (\<exists>s. downsample sf wav = Inr s \<and>
              spec_compute_features frame_length frame_shift window feature_vector
                (mean_axis0 s) sf 1 = Inr []) \<and>
         process_utt (spec_compute_features frame_length frame_shift window feature_vector)
           spec_scale sf wav = Inl DegenerateInputError"
proof -
  have ds: "downsample sf wav = Inr (map (slice_step k) (data wav))"
    using assms(2-4) by (rule downsample_exact_ratio)
  have "\<forall>ch \<in> set (map (slice_step k) (data wav)). ch = []"
    using assms(3,5) by (auto simp: slice_step_pos)
  then have m: "mean_axis0 (map (slice_step k) (data wav)) = []"
    by (rule mean_axis0_no_samples)
  have cf: "spec_compute_features frame_length frame_shift window feature_vector [] sf 1 = Inr []"
    using assms(1) by (simp add: spec_compute_features_def no_frame)
  have "process_utt (spec_compute_features frame_length frame_shift window feature_vector)
          spec_scale sf wav = Inl DegenerateInputError"
    by (simp add: process_utt_def ds m cf spec_scale_def)
  moreover have "spec_scale [] = Inl DegenerateInputError"
    by (simp add: spec_scale_def)
  ultimately show ?thesis using ds m cf by simp
qed

theorem empty_buffer_degenerate_witness:
  "process_utt (spec_compute_features 200 80 id id) spec_scale 8000
     \<lparr>samp_freq = 16000, duration = 0, data = [[]]\<rparr> = Inl DegenerateInputError"
  using empty_buffer_degenerate[of 200 8000 2 "\<lparr>samp_freq = 16000, duration = 0, data = [[]]\<rparr>"
      80 id id]
  by simp

end
